theory Spec2Isabelle
  imports Complex_Main "HOL-Library.Multiset" "HOL-Library.Monad_Syntax"
begin

section \<open>Strings and the regular expressions of the sources\<close>

text \<open>
  A Python \<open>str\<close> is a sequence of code points. A text is modelled as a \<^typ>\<open>string\<close>
  whose characters are the code points below 256 (Latin-1), one \<^typ>\<open>char\<close> per code
  point, so that \<open>length\<close> is Python's \<open>len\<close>. A finite Python float is modelled as the
  real number that it denotes. The similarity scores of the pattern library, which are
  compared with a threshold, are computed in double precision, every operation rounded
  (\<open>round_double\<close> below); the other scores are computed without rounding.
\<close>

definition code :: "char \<Rightarrow> nat" where
  "code c = of_char c"

definition lower_char :: "char \<Rightarrow> char" where
  \<comment> \<open>\<open>str.lower\<close> on one code point below 256\<close>
  "lower_char c =
     (let n = code c in
      if (65 \<le> n \<and> n \<le> 90) \<or> (192 \<le> n \<and> n \<le> 222 \<and> n \<noteq> 215)
      then char_of (n + 32) else c)"

definition lower :: "string \<Rightarrow> string" where
  "lower s = map lower_char s"

definition is_space :: "char \<Rightarrow> bool" where
  \<comment> \<open>\<open>str.isspace\<close> below 256\<close>
  "is_space c =
     (let n = code c in (9 \<le> n \<and> n \<le> 13) \<or> (28 \<le> n \<and> n \<le> 32) \<or> n = 133 \<or> n = 160)"

definition is_digit :: "char \<Rightarrow> bool" where
  \<comment> \<open>the class \<open>\d\<close> below 256\<close>
  "is_digit c = (let n = code c in 48 \<le> n \<and> n \<le> 57)"

definition is_word :: "char \<Rightarrow> bool" where
  \<comment> \<open>the class \<open>\w\<close> below 256: alphanumeric code points and the underscore\<close>
  "is_word c =
     (let n = code c in
      (48 \<le> n \<and> n \<le> 57) \<or> (65 \<le> n \<and> n \<le> 90) \<or> (97 \<le> n \<and> n \<le> 122) \<or> n = 95
      \<or> n = 170 \<or> n = 178 \<or> n = 179 \<or> n = 181 \<or> n = 185 \<or> n = 186
      \<or> (188 \<le> n \<and> n \<le> 190) \<or> (192 \<le> n \<and> n \<le> 214) \<or> (216 \<le> n \<and> n \<le> 246)
      \<or> (248 \<le> n \<and> n \<le> 255))"

definition strip :: "string \<Rightarrow> string" where
  "strip s = rev (dropWhile is_space (rev (dropWhile is_space s)))"

fun startswith :: "string \<Rightarrow> string \<Rightarrow> bool" where
  "startswith s [] = True"
| "startswith [] (p # ps) = False"
| "startswith (c # cs) (p # ps) = (c = p \<and> startswith cs ps)"

fun contains :: "string \<Rightarrow> string \<Rightarrow> bool" where
  \<comment> \<open>\<open>contains s k\<close> is Python's \<open>k in s\<close>\<close>
  "contains [] k = (k = [])"
| "contains (c # cs) k = (startswith (c # cs) k \<or> contains cs k)"

fun split_on :: "(char \<Rightarrow> bool) \<Rightarrow> string \<Rightarrow> string list" where
  \<comment> \<open>\<open>re.split\<close> on a one-character class, and \<open>str.split\<close> on one separator character\<close>
  "split_on P [] = [[]]"
| "split_on P (c # cs) =
     (if P c then [] # split_on P cs
      else (case split_on P cs of [] \<Rightarrow> [[c]] | w # ws \<Rightarrow> (c # w) # ws))"

fun words_from :: "string \<Rightarrow> string \<Rightarrow> string list" where
  \<comment> \<open>\<open>str.split()\<close>: the maximal runs of characters that are not whitespace;
      the first argument is the run being read, reversed\<close>
  "words_from acc [] = (if acc = [] then [] else [rev acc])"
| "words_from acc (c # cs) =
     (if is_space c then (if acc = [] then words_from [] cs else rev acc # words_from [] cs)
      else words_from (c # acc) cs)"

definition split_words :: "string \<Rightarrow> string list" where
  "split_words s = words_from [] s"

fun join :: "string \<Rightarrow> string list \<Rightarrow> string" where
  "join sep [] = []"
| "join sep [x] = x"
| "join sep (x # y # ys) = x @ sep @ join sep (y # ys)"

text \<open>
  A Python float is an IEEE 754 double: 53 significant bits, results rounded to the
  nearest double, ties to the even one. \<open>round_double x\<close> is the double nearest to the
  real \<open>x\<close>: \<open>x\<close> is scaled into the binade \<open>[1, 2)\<close> with its exponent (at least -1022:
  below, the doubles are subnormal and keep the spacing of that exponent), and the 53-bit
  significand is rounded. Values of \<open>2 ^ 1024\<close> and more, which round to infinity, do not
  occur: no score is above 1.
\<close>

definition round_half_even :: "real \<Rightarrow> int" where
  "round_half_even r =
     (let f = \<lfloor>r\<rfloor>; d = r - of_int f
      in if d < 1 / 2 then f else if 1 / 2 < d then f + 1 else if even f then f else f + 1)"

fun binade_down :: "nat \<Rightarrow> real \<Rightarrow> int \<Rightarrow> real \<times> int" where
  \<comment> \<open>doubles \<open>x < 1\<close> until it is in \<open>[1, 2)\<close>, at most \<open>fuel\<close> times\<close>
  "binade_down fuel x e =
     (if fuel = 0 \<or> 1 \<le> x then (x, e) else binade_down (fuel - 1) (2 * x) (e - 1))"

fun binade_up :: "nat \<Rightarrow> real \<Rightarrow> int \<Rightarrow> real \<times> int" where
  \<comment> \<open>halves \<open>x \<ge> 2\<close> until it is in \<open>[1, 2)\<close>, at most \<open>fuel\<close> times\<close>
  "binade_up fuel x e =
     (if fuel = 0 \<or> x < 2 then (x, e) else binade_up (fuel - 1) (x / 2) (e + 1))"

definition round_double :: "real \<Rightarrow> real" where
  "round_double x =
     (if x = 0 then 0
      else
        let a = \<bar>x\<bar>;
            (m, e) = (if a < 1 then binade_down 1022 a 0 else binade_up 1023 a 0);
            n = round_half_even (m * 2 ^ 52);
            v = (if 52 \<le> e then of_int n * 2 ^ nat (e - 52) else of_int n / 2 ^ nat (52 - e))
        in if x < 0 then - v else v)"

definition float_add :: "real \<Rightarrow> real \<Rightarrow> real" where
  "float_add a b = round_double (a + b)"

definition float_mul :: "real \<Rightarrow> real \<Rightarrow> real" where
  "float_mul a b = round_double (a * b)"

definition int_truediv :: "nat \<Rightarrow> nat \<Rightarrow> real" where
  \<comment> \<open>\<open>a / b\<close> on integers with \<open>b > 0\<close>: the double nearest to the quotient\<close>
  "int_truediv a b = round_double (real a / real b)"

text \<open>
  The regular expressions that occur in the sources: literals matched without regard to
  case, \<open>\d+\<close>, \<open>\w+\<close>, \<open>.*\<close>, \<open>\b\<close>, sequence and alternation. \<open>rx_ends r prev s\<close>
  lists the lengths of the matches of \<open>r\<close> at the start of \<open>s\<close>, in the order in which a
  backtracking matcher tries them (greedy repetitions longest first, alternatives left to
  right); \<open>prev\<close> is the character before \<open>s\<close> in the subject, for \<open>\b\<close>.
\<close>

datatype rx = Lit string | Digits | Words | AnyStar | WordB | Seq rx rx | Alt rx rx

definition char_before :: "char option \<Rightarrow> string \<Rightarrow> nat \<Rightarrow> char option" where
  "char_before prev s n = (case rev (take n s) of [] \<Rightarrow> prev | c # _ \<Rightarrow> Some c)"

definition word_at :: "char option \<Rightarrow> bool" where
  "word_at p = (case p of None \<Rightarrow> False | Some c \<Rightarrow> is_word c)"

definition first_char :: "string \<Rightarrow> char option" where
  "first_char s = (case s of [] \<Rightarrow> None | c # _ \<Rightarrow> Some c)"

primrec rx_ends :: "rx \<Rightarrow> char option \<Rightarrow> string \<Rightarrow> nat list" where
  "rx_ends (Lit p) prev s =
     (if length p \<le> length s \<and> lower (take (length p) s) = lower p then [length p] else [])"
| "rx_ends Digits prev s = rev [1 ..< Suc (length (takeWhile is_digit s))]"
| "rx_ends Words prev s = rev [1 ..< Suc (length (takeWhile is_word s))]"
| "rx_ends AnyStar prev s = rev [0 ..< Suc (length (takeWhile (\<lambda>c. c \<noteq> CHR 0x0A) s))]"
| "rx_ends WordB prev s = (if word_at prev \<noteq> word_at (first_char s) then [0] else [])"
| "rx_ends (Seq r1 r2) prev s =
     concat (map (\<lambda>n. map (\<lambda>m. n + m) (rx_ends r2 (char_before prev s n) (drop n s)))
                 (rx_ends r1 prev s))"
| "rx_ends (Alt r1 r2) prev s = rx_ends r1 prev s @ rx_ends r2 prev s"

text \<open>
  \<open>re.findall\<close> and \<open>re.sub\<close> with the empty replacement scan the subject from the left,
  take the first match at the leftmost position that has one and go on after it. No
  expression of the sources matches the empty string, so the scan stops at the end of the
  subject.
\<close>

fun findall_from :: "rx \<Rightarrow> char option \<Rightarrow> string \<Rightarrow> string list" where
  "findall_from r prev [] = []"
| "findall_from r prev (c # cs) =
     (case rx_ends r prev (c # cs) of
        [] \<Rightarrow> findall_from r (Some c) cs
      | n # _ \<Rightarrow> take n (c # cs) #
                 findall_from r (char_before (Some c) cs (n - 1)) (drop (n - 1) cs))"

definition findall :: "rx \<Rightarrow> string \<Rightarrow> string list" where
  "findall r s = findall_from r None s"

fun sub_from :: "rx \<Rightarrow> char option \<Rightarrow> string \<Rightarrow> string" where
  "sub_from r prev [] = []"
| "sub_from r prev (c # cs) =
     (case rx_ends r prev (c # cs) of
        [] \<Rightarrow> c # sub_from r (Some c) cs
      | n # _ \<Rightarrow> (if n = 0 then c # sub_from r (Some c) cs
                  else sub_from r (char_before (Some c) cs (n - 1)) (drop (n - 1) cs)))"

definition sub_empty :: "rx \<Rightarrow> string \<Rightarrow> string" where
  \<comment> \<open>\<open>re.sub(r, '', s, flags=re.IGNORECASE)\<close>\<close>
  "sub_empty r s = sub_from r None s"

section \<open>ucp_core.py\<close>

datatype BiasType =
  NARRATIVE_PADDING | EMOTIONAL_MANIPULATION | AUTHORITY_APPEAL
| CONFIRMATION_SEEKING | HEDGING_UNCERTAINTY | VERBOSE_REDUNDANCY

record LogicalChain =
  premise :: string
  reasoning :: "string list"
  conclusion :: string
  confidence :: real
  contradictions :: "string list"

record CompressionResult =
  original_length :: nat
  compressed_length :: nat
  compression_ratio :: real
  information_density :: real
  bias_score :: real
  logical_coherence :: real

definition bias_patterns :: "(BiasType \<times> string list) list" where
  "bias_patterns =
    [(NARRATIVE_PADDING,
        [''let me explain'', ''it's important to understand'', ''as you can see'',
         ''obviously'', ''clearly'', ''of course'', ''needless to say'']),
     (EMOTIONAL_MANIPULATION,
        [''exciting'', ''amazing'', ''incredible'', ''revolutionary'',
         ''breakthrough'', ''game-changing'', ''transformative'']),
     (AUTHORITY_APPEAL,
        [''experts say'', ''studies show'', ''research indicates'',
         ''according to'', ''as proven by'', ''established fact'']),
     (CONFIRMATION_SEEKING,
        [''don't you think'', ''wouldn't you agree'', ''right?'',
         ''makes sense'', ''does that sound'', ''what do you think'']),
     (HEDGING_UNCERTAINTY,
        [''might'', ''could'', ''perhaps'', ''possibly'', ''maybe'',
         ''seems like'', ''appears to'', ''tends to'', ''generally'']),
     (VERBOSE_REDUNDANCY,
        [''in other words'', ''to put it simply'', ''what this means'',
         ''in essence'', ''basically'', ''fundamentally''])]"

definition logical_operators :: "string list" where
  "logical_operators = [''therefore'', ''because'', ''if'', ''then'', ''implies'', ''contradicts'']"

definition count_matches :: "string \<Rightarrow> string \<Rightarrow> nat" where
  \<comment> \<open>\<open>len(re.findall(pattern, text, re.IGNORECASE))\<close> for a literal pattern\<close>
  "count_matches pattern text = length (findall (Lit pattern) text)"


definition text_sentences :: "string \<Rightarrow> string list" where
  \<comment> \<open>\<open>[s.strip() for s in re.split(r'[.!?]', text) if s.strip()]\<close>\<close>
  "text_sentences text =
     filter (\<lambda>s. s \<noteq> [])
       (map strip (split_on (\<lambda>c. c = CHR ''.'' \<or> c = CHR ''!'' \<or> c = CHR ''?'') text))"

definition negation_rx :: rx where
  "negation_rx =
     Seq WordB (Seq (Alt (Lit ''not'') (Alt (Lit ''never'') (Alt (Lit ''no'')
       (Alt (Lit ''isn't'') (Alt (Lit ''doesn't'') (Lit ''won't'')))))) WordB)"

fun detect_contradictions :: "string list \<Rightarrow> string list" where
  "detect_contradictions [] = []"
| "detect_contradictions (sent1 # rest) =
     map (\<lambda>sent2. ''Contradiction: '' @ [CHR 0x27] @ sent1 @ [CHR 0x27] @ '' vs '' @
                   [CHR 0x27] @ sent2 @ [CHR 0x27])
       (filter (\<lambda>sent2. lower (strip (sub_empty negation_rx sent1)) = lower (strip sent2)) rest)
     @ detect_contradictions rest"

definition calculate_confidence :: "string list \<Rightarrow> string list \<Rightarrow> real" where
  "calculate_confidence rs cs =
     (if cs \<noteq> [] then 0
      else min 1 (0.5 + real (length rs) * 0.3))"

definition is_reasoning :: "string \<Rightarrow> bool" where
  "is_reasoning sentence =
     (let sentence_lower = lower sentence in
      if list_ex (\<lambda>op. contains sentence_lower op) logical_operators then True
      else list_ex (\<lambda>w. contains sentence_lower w)
             [''causes'', ''leads to'', ''results in'', ''enables'', ''creates''])"

definition extract_logical_chain :: "string \<Rightarrow> LogicalChain" where
  "extract_logical_chain text =
     (let sentences = text_sentences text;
          premise = (case sentences of [] \<Rightarrow> [] | s # _ \<Rightarrow> s);
          conclusion = (case rev sentences of [] \<Rightarrow> [] | s # _ \<Rightarrow> s);
          reasoning0 = filter is_reasoning sentences;
          reasoning = (if reasoning0 = [] \<and> 2 < length sentences
                       then butlast (tl sentences) else reasoning0);
          contradictions = detect_contradictions sentences;
          confidence = calculate_confidence reasoning contradictions
      in \<lparr>premise = premise, reasoning = reasoning, conclusion = conclusion,
          confidence = confidence, contradictions = contradictions\<rparr>)"

definition remove_bias :: "string \<Rightarrow> string \<times> nat" where
  \<comment> \<open>the loop of \<open>compress\<close> over all bias patterns: the text left and the matches counted\<close>
  "remove_bias text =
     foldl (\<lambda>(compressed, total_bias_count) pattern.
              (sub_empty (Lit pattern) compressed,
               total_bias_count + count_matches pattern compressed))
           (text, 0) (concat (map snd bias_patterns))"

definition compress :: "string \<Rightarrow> CompressionResult" where
  "compress text =
     (let original_length = length text;
          (compressed, total_bias_count) = remove_bias text;
          logical_chain = extract_logical_chain compressed;
          core_logic = (if premise logical_chain \<noteq> [] then [premise logical_chain] else [])
                       @ reasoning logical_chain
                       @ (if conclusion logical_chain \<noteq> [] then [conclusion logical_chain] else []);
          compressed_text = join ''. '' core_logic;
          compressed_length = length compressed_text
      in \<lparr>original_length = original_length,
          compressed_length = compressed_length,
          compression_ratio =
            (if original_length > 0 then real compressed_length / real original_length else 0),
          information_density =
            (if compressed_length > 0
             then real (length (reasoning logical_chain)) / real compressed_length else 0),
          bias_score =
            (if original_length > 0 then real total_bias_count / real original_length else 0),
          logical_coherence = confidence logical_chain\<rparr>)"

definition harmful_patterns :: "string list" where
  "harmful_patterns =
     [''eliminate'', ''destroy'', ''remove people'', ''reduce population'',
      ''dominate'', ''control humans'', ''replace humans'']"

definition connection_patterns :: "string list" where
  "connection_patterns =
     [''collaborate'', ''connect'', ''improve'', ''enhance'', ''help'',
      ''cooperate'', ''support'', ''strengthen'']"

definition harmful_score :: "string \<Rightarrow> nat" where
  "harmful_score text = sum_list (map (\<lambda>pattern. count_matches pattern text) harmful_patterns)"

definition connection_score :: "string \<Rightarrow> nat" where
  "connection_score text = sum_list (map (\<lambda>pattern. count_matches pattern text) connection_patterns)"

definition validate_connection_axiom :: "string \<Rightarrow> bool" where
  "validate_connection_axiom text = (connection_score text > harmful_score text)"



record ProcessResult =
  original_text :: string
  bias_detection :: "(string \<times> nat) list"
  logical_chain :: LogicalChain
  compression :: CompressionResult
  connection_axiom_valid :: bool
  enhancement_score :: real


section \<open>pattern_library.py\<close>

text \<open>
  A Python \<open>dict\<close> keeps its keys in insertion order, and an assignment to a key that is
  present replaces the value in place. It is modelled as an association list with distinct
  keys.
\<close>

fun dict_set :: "('k \<times> 'v) list \<Rightarrow> 'k \<Rightarrow> 'v \<Rightarrow> ('k \<times> 'v) list" where
  "dict_set [] k v = [(k, v)]"
| "dict_set ((k', v') # d) k v = (if k' = k then (k, v) # d else (k', v') # dict_set d k v)"

definition dict_of_pairs :: "('k \<times> 'v) list \<Rightarrow> ('k \<times> 'v) list" where
  \<comment> \<open>\<open>dict(pairs)\<close>: a later pair with the same key replaces the value of the earlier one\<close>
  "dict_of_pairs ps = foldl (\<lambda>d (k, v). dict_set d k v) [] ps"

record SolutionPattern =
  pattern_id :: string
  problem_domain :: string
  solution_approach :: string
  implementation_steps :: "string list"
  success_metrics :: "string list"
  prerequisites :: "string list"
  connections_enhanced :: int
  confidence_score :: real
  source :: string

record ProblemSignature =
  sig_domain :: string
  sig_complexity :: string
  sig_constraints :: "string list"
  sig_stakeholders :: "string list"
  sig_success_criteria :: "string list"

record PatternLibrary =
  storage_path :: string
  patterns :: "(string \<times> SolutionPattern) list"
  problem_signatures :: "(string \<times> ProblemSignature) list"
  connection_weights :: "(string \<times> real) list"

datatype py_error =
  AttributeError | TypeError | ValueError | UnicodeDecodeError | RecursionError | OSError

text \<open>
  The values that \<open>json.load\<close> returns and \<open>json.dump\<close> takes. The members of an object
  are kept as the pairs of the file; \<open>dict_of_pairs\<close> makes the dictionary of them.
\<close>

datatype json =
  JNull | JBool bool | JInt int | JFloat real | JStr string
| JList "json list" | JObj "(string \<times> json) list"

text \<open>
  What is at a path of the file system: nothing, a text that \<open>json.load\<close> rejects with
  \<open>JSONDecodeError\<close>, a text that it reads as a value, or something whose reading raises
  another exception: \<open>UnicodeDecodeError\<close> for bytes that are no text in the encoding,
  \<open>RecursionError\<close> for a value that is nested too deep, an \<open>OSError\<close> other than
  \<open>FileNotFoundError\<close> (a directory, a file that may not be read). Reading and writing
  JSON text is the library's work and is not modelled further: a file written by
  \<open>json.dump\<close> holds the value that was dumped.
\<close>

datatype pattern_file = FileMissing | FileNotJson | FileJson json | FileRaises py_error

type_synonym file_system = "string \<Rightarrow> pattern_file"

definition first_max :: "string \<times> nat \<Rightarrow> (string \<times> nat) list \<Rightarrow> string" where
  \<comment> \<open>\<open>max(items, key=lambda x: x[1])[0]\<close> on the items \<open>item # items\<close>: the key of the
      first item with the greatest score\<close>
  "first_max item items =
     fst (foldl (\<lambda>best x. if snd x > snd best then x else best) item items)"

definition domain_scores :: "(string \<times> string list) list \<Rightarrow> string \<Rightarrow> (string \<times> nat) list" where
  \<comment> \<open>the loop shared by \<open>_classify_domain\<close> and \<open>_classify_sentence_domain\<close>\<close>
  "domain_scores table text_lower =
     filter (\<lambda>(d, score). score > 0)
       (map (\<lambda>(d, keywords). (d, length (filter (\<lambda>keyword. contains text_lower keyword) keywords)))
            table)"

definition domain_keywords :: "(string \<times> string list) list" where
  "domain_keywords =
    [(''communication'', [''communicate'', ''message'', ''talk'', ''understand'', ''clarity'']),
     (''coordination'', [''coordinate'', ''organize'', ''sync'', ''align'', ''collaborate'']),
     (''efficiency'', [''optimize'', ''improve'', ''faster'', ''reduce'', ''streamline'']),
     (''connection'', [''connect'', ''relationship'', ''bond'', ''link'', ''network'']),
     (''knowledge'', [''learn'', ''understand'', ''knowledge'', ''information'', ''data'']),
     (''automation'', [''automate'', ''automatic'', ''process'', ''workflow'', ''system'']),
     (''scaling'', [''scale'', ''growth'', ''expand'', ''multiply'', ''distribute''])]"

definition classify_domain :: "string \<Rightarrow> string" where
  "classify_domain problem_description =
     (case domain_scores domain_keywords (lower problem_description) of
        [] \<Rightarrow> ''general''
      | item # items \<Rightarrow> first_max item items)"

definition approach_patterns :: "(string \<times> string list) list" where
  "approach_patterns =
    [(''compression'', [''compress'', ''reduce'', ''minimize'', ''condense'']),
     (''automation'', [''automate'', ''automatic'', ''scripted'', ''programmatic'']),
     (''standardization'', [''standard'', ''protocol'', ''format'', ''specification'']),
     (''decomposition'', [''break down'', ''divide'', ''separate'', ''modular'']),
     (''optimization'', [''optimize'', ''improve'', ''enhance'', ''refine'']),
     (''validation'', [''validate'', ''verify'', ''check'', ''confirm'']),
     (''integration'', [''integrate'', ''combine'', ''merge'', ''unify''])]"

definition extract_approach :: "string \<Rightarrow> string" where
  "extract_approach solution_description =
     (let text_lower = lower solution_description
      in case filter (\<lambda>(approach, keywords). list_ex (contains text_lower) keywords)
                     approach_patterns of
           [] \<Rightarrow> ''custom''
         | (approach, _) # _ \<Rightarrow> approach)"

definition lstrip_chars :: "string \<Rightarrow> string \<Rightarrow> string" where
  \<comment> \<open>\<open>s.lstrip(chars)\<close>\<close>
  "lstrip_chars chars s = dropWhile (\<lambda>c. c \<in> set chars) s"

definition parse_implementation_steps :: "string \<Rightarrow> string list" where
  "parse_implementation_steps implementation =
     (let steps =
            map (\<lambda>line. strip (lstrip_chars ''- *1234567890.'' line))
              (filter (\<lambda>line. line \<noteq> [] \<and>
                         (startswith line ''-'' \<or> startswith line ''1.'' \<or> startswith line ''*'' \<or>
                          list_ex (contains (lower line))
                            [''implement'', ''create'', ''build'', ''setup'', ''configure'']))
                 (map strip (split_on (\<lambda>c. c = CHR 0x0A) implementation)))
      in if steps \<noteq> [] then steps else [strip implementation])"

definition metric_patterns :: "rx list" where
  "metric_patterns =
    [Alt (Seq Digits (Lit ''x'')) (Alt (Seq Digits (Lit ''%'')) (Seq (Lit ''factor of '') Digits)),
     Seq (Lit ''reduce'') (Seq AnyStar (Seq (Lit ''by '') Digits)),
     Seq (Lit ''increase'') (Seq AnyStar (Seq (Lit ''by '') Digits)),
     Seq (Lit ''improve'') (Seq AnyStar Digits),
     Alt (Lit ''faster'') (Alt (Lit ''slower'') (Alt (Lit ''better'') (Lit ''worse'')))]"

definition extract_success_metrics :: "string \<Rightarrow> string list" where
  "extract_success_metrics solution_description =
     concat (map (\<lambda>pattern. findall pattern solution_description) metric_patterns)"

definition extract_prerequisites :: "string \<Rightarrow> string list" where
  "extract_prerequisites implementation =
     map strip
       (filter (\<lambda>line. list_ex (contains (lower line))
                         [''require'', ''need'', ''must'', ''prerequisite'', ''dependency''])
          (split_on (\<lambda>c. c = CHR 0x0A) implementation))"

definition calculate_connection_impact :: "string \<Rightarrow> int" where
  "calculate_connection_impact solution_description =
     int (length (filter (contains (lower solution_description))
        [''collaborate'', ''connect'', ''network'', ''link'', ''relationship'',
         ''communication'', ''cooperation'', ''partnership'', ''community'']))"

definition calculate_pattern_confidence :: "string \<Rightarrow> string \<Rightarrow> real" where
  "calculate_pattern_confidence problem solution =
     (let problem_clarity = real (length (split_words problem)) / 100;
          solution_specificity =
            length (filter (\<lambda>word. lower word \<in> set [''implement'', ''create'', ''build'', ''use''])
                      (split_words solution))
      in min 1 (problem_clarity + real solution_specificity * 0.1))"

definition generate_pattern_id :: "(string \<Rightarrow> string) \<Rightarrow> string \<Rightarrow> string \<Rightarrow> string" where
  \<comment> \<open>the first argument is \<open>hashlib.md5(s.encode()).hexdigest()\<close>, a library function\<close>
  "generate_pattern_id md5_hexdigest dmn approach = take 8 (md5_hexdigest (dmn @ ''_'' @ approach))"

definition extract_pattern ::
  "(string \<Rightarrow> string) \<Rightarrow> PatternLibrary \<Rightarrow> string \<Rightarrow> string \<Rightarrow> string \<Rightarrow> string
     \<Rightarrow> SolutionPattern \<times> PatternLibrary" where
  "extract_pattern md5_hexdigest lib problem_description solution_description implementation src =
     (let dmn = classify_domain problem_description;
          approach = extract_approach solution_description;
          pattern =
            \<lparr>pattern_id = generate_pattern_id md5_hexdigest dmn approach,
             problem_domain = dmn,
             solution_approach = approach,
             implementation_steps = parse_implementation_steps implementation,
             success_metrics = extract_success_metrics solution_description,
             prerequisites = extract_prerequisites implementation,
             connections_enhanced = calculate_connection_impact solution_description,
             confidence_score = calculate_pattern_confidence problem_description solution_description,
             source = src\<rparr>
      in (pattern, lib\<lparr>patterns := dict_set (patterns lib) (pattern_id pattern) pattern\<rparr>))"

definition calculate_similarity :: "ProblemSignature \<Rightarrow> SolutionPattern \<Rightarrow> real" where
  \<comment> \<open>the literals \<open>0.6\<close> and \<open>0.4\<close> are the doubles nearest to 6/10 and 4/10\<close>
  "calculate_similarity problem_sig pattern =
     (let domain_match = (if sig_domain problem_sig = problem_domain pattern then 1 else 0);
          constraint_overlap =
            (if sig_constraints problem_sig \<noteq> []
             then int_truediv
                    (length (filter
                       (\<lambda>constraint. list_ex (\<lambda>step. contains (lower step) (lower constraint))
                                             (implementation_steps pattern))
                       (sig_constraints problem_sig)))
                    (length (sig_constraints problem_sig))
             else 0)
      in float_add (float_mul domain_match (round_double (6 / 10)))
                   (float_mul constraint_overlap (round_double (4 / 10))))"

definition find_similar_patterns ::
  "PatternLibrary \<Rightarrow> ProblemSignature \<Rightarrow> real \<Rightarrow> SolutionPattern list" where
  \<comment> \<open>\<open>list.sort(key, reverse=True)\<close> is stable: \<open>sort_key\<close> on the negated score; the threshold
      is a float, and floats are compared as the reals they denote\<close>
  "find_similar_patterns lib problem_signature threshold =
     (let similar_patterns =
            filter (\<lambda>(pattern, similarity). similarity \<ge> threshold)
              (map (\<lambda>pattern. (pattern, calculate_similarity problem_signature pattern))
                   (map snd (patterns lib)))
      in map fst (sort_key (\<lambda>x. - snd x) similar_patterns))"

text \<open>
  \<open>recombine_patterns\<close> returns one of two dictionaries: \<open>{"error": message}\<close>, or
  \<open>{"recombined_solution": {...}}\<close> with six entries. \<open>list(set(xs))\<close> lists the elements
  of \<open>xs\<close> in an order that the sources do not fix, so the prerequisites are a set.
\<close>

record RecombinedSolution =
  rs_implementation_steps :: "string list"
  rs_prerequisites :: "string set"
  rs_confidence_score :: real
  rs_connections_enhanced :: int
  rs_source_patterns :: "string list"
  rs_problem_context :: string

datatype recombine_result = Error_dict string | Recombined_solution_dict RecombinedSolution

fun unique_steps :: "string list \<Rightarrow> string list \<Rightarrow> string list" where
  \<comment> \<open>the loop that drops a step whose lower-case form was seen; the first argument is \<open>seen\<close>\<close>
  "unique_steps seen [] = []"
| "unique_steps seen (step # steps) =
     (if lower step \<notin> set seen then step # unique_steps (lower step # seen) steps
      else unique_steps seen steps)"

definition recombine_patterns :: "SolutionPattern list \<Rightarrow> string \<Rightarrow> recombine_result" where
  "recombine_patterns ps problem_context =
     (if ps = [] then Error_dict ''No patterns provided for recombination''
      else
        let combined_steps = concat (map implementation_steps ps);
            all_prerequisites = concat (map prerequisites ps);
            avg_confidence = sum_list (map confidence_score ps) / real (length ps);
            total_connections = sum_list (map connections_enhanced ps)
        in Recombined_solution_dict
             \<lparr>rs_implementation_steps = unique_steps [] combined_steps,
              rs_prerequisites = set all_prerequisites,
              rs_confidence_score = avg_confidence,
              rs_connections_enhanced = total_connections,
              rs_source_patterns = map pattern_id ps,
              rs_problem_context = problem_context\<rparr>)"

definition asdict_pattern :: "SolutionPattern \<Rightarrow> json" where
  "asdict_pattern p =
     JObj [(''id'', JStr (pattern_id p)),
           (''problem_domain'', JStr (problem_domain p)),
           (''solution_approach'', JStr (solution_approach p)),
           (''implementation_steps'', JList (map JStr (implementation_steps p))),
           (''success_metrics'', JList (map JStr (success_metrics p))),
           (''prerequisites'', JList (map JStr (prerequisites p))),
           (''connections_enhanced'', JInt (connections_enhanced p)),
           (''confidence_score'', JFloat (confidence_score p)),
           (''source'', JStr (source p))]"

definition asdict_signature :: "ProblemSignature \<Rightarrow> json" where
  "asdict_signature g =
     JObj [(''domain'', JStr (sig_domain g)),
           (''complexity'', JStr (sig_complexity g)),
           (''constraints'', JList (map JStr (sig_constraints g))),
           (''stakeholders'', JList (map JStr (sig_stakeholders g))),
           (''success_criteria'', JList (map JStr (sig_success_criteria g)))]"

definition save_patterns :: "PatternLibrary \<Rightarrow> file_system \<Rightarrow> file_system" where
  \<comment> \<open>the file is opened for writing and replaced by the dumped value\<close>
  "save_patterns lib fs =
     fs (storage_path lib :=
           FileJson (JObj
             [(''patterns'', JObj (map (\<lambda>(pid, pattern). (pid, asdict_pattern pattern)) (patterns lib))),
              (''problem_signatures'',
                 JObj (map (\<lambda>(pid, g). (pid, asdict_signature g)) (problem_signatures lib)))]))"

text \<open>
  \<open>load_patterns\<close> catches \<open>JSONDecodeError\<close> and \<open>FileNotFoundError\<close> only: any other
  exception of \<open>open\<close> or \<open>json.load\<close> reaches the caller. A file that
  holds a JSON value of another shape makes it raise: \<open>AttributeError\<close> where \<open>get\<close> or
  \<open>items\<close> is called on a value that is no dictionary, \<open>TypeError\<close> where the keyword
  arguments of a dataclass constructor are no dictionary or are not exactly its fields.
  The constructors do not check the types of the values. The records of this model are
  typed, so a file that gives a field a value of another type is outside of it: the
  outcome \<open>Untyped\<close>.
\<close>

datatype 'a outcome = Returns 'a | Raises py_error | Untyped

fun json_strs :: "json list \<Rightarrow> string list option" where
  "json_strs [] = Some []"
| "json_strs (JStr s # vs) = (case json_strs vs of None \<Rightarrow> None | Some ss \<Rightarrow> Some (s # ss))"
| "json_strs (_ # vs) = None"

definition str_field :: "(string \<times> json) list \<Rightarrow> string \<Rightarrow> string option" where
  "str_field kw k = (case map_of kw k of Some (JStr s) \<Rightarrow> Some s | _ \<Rightarrow> None)"

definition strs_field :: "(string \<times> json) list \<Rightarrow> string \<Rightarrow> string list option" where
  "strs_field kw k = (case map_of kw k of Some (JList vs) \<Rightarrow> json_strs vs | _ \<Rightarrow> None)"

definition int_field :: "(string \<times> json) list \<Rightarrow> string \<Rightarrow> int option" where
  "int_field kw k = (case map_of kw k of Some (JInt i) \<Rightarrow> Some i | _ \<Rightarrow> None)"

definition float_field :: "(string \<times> json) list \<Rightarrow> string \<Rightarrow> real option" where
  "float_field kw k =
     (case map_of kw k of Some (JFloat r) \<Rightarrow> Some r | Some (JInt i) \<Rightarrow> Some (of_int i) | _ \<Rightarrow> None)"

definition same_keys :: "(string \<times> json) list \<Rightarrow> string list \<Rightarrow> bool" where
  \<comment> \<open>the keyword arguments are exactly the fields: none missing, none unexpected\<close>
  "same_keys kw names =
     (list_all (\<lambda>f. f \<in> set (map fst kw)) names \<and> list_all (\<lambda>k. k \<in> set names) (map fst kw))"

definition pattern_of_json :: "json \<Rightarrow> SolutionPattern outcome" where
  \<comment> \<open>\<open>SolutionPattern(**pattern_data)\<close>\<close>
  "pattern_of_json pattern_data =
     (case pattern_data of
        JObj members \<Rightarrow>
          (let kw = dict_of_pairs members in
           if \<not> same_keys kw
                [''id'', ''problem_domain'', ''solution_approach'', ''implementation_steps'',
                 ''success_metrics'', ''prerequisites'', ''connections_enhanced'',
                 ''confidence_score'', ''source'']
           then Raises TypeError
           else (case do {
                   i \<leftarrow> str_field kw ''id'';
                   d \<leftarrow> str_field kw ''problem_domain'';
                   a \<leftarrow> str_field kw ''solution_approach'';
                   st \<leftarrow> strs_field kw ''implementation_steps'';
                   m \<leftarrow> strs_field kw ''success_metrics'';
                   pr \<leftarrow> strs_field kw ''prerequisites'';
                   c \<leftarrow> int_field kw ''connections_enhanced'';
                   cs \<leftarrow> float_field kw ''confidence_score'';
                   sr \<leftarrow> str_field kw ''source'';
                   Some \<lparr>pattern_id = i, problem_domain = d, solution_approach = a,
                         implementation_steps = st, success_metrics = m, prerequisites = pr,
                         connections_enhanced = c, confidence_score = cs, source = sr\<rparr>
                 } of None \<Rightarrow> Untyped | Some p \<Rightarrow> Returns p))
      | _ \<Rightarrow> Raises TypeError)"

definition signature_of_json :: "json \<Rightarrow> ProblemSignature outcome" where
  \<comment> \<open>\<open>ProblemSignature(**sig_data)\<close>\<close>
  "signature_of_json sig_data =
     (case sig_data of
        JObj members \<Rightarrow>
          (let kw = dict_of_pairs members in
           if \<not> same_keys kw
                [''domain'', ''complexity'', ''constraints'', ''stakeholders'', ''success_criteria'']
           then Raises TypeError
           else (case do {
                   d \<leftarrow> str_field kw ''domain'';
                   c \<leftarrow> str_field kw ''complexity'';
                   cs \<leftarrow> strs_field kw ''constraints'';
                   sh \<leftarrow> strs_field kw ''stakeholders'';
                   sc \<leftarrow> strs_field kw ''success_criteria'';
                   Some \<lparr>sig_domain = d, sig_complexity = c, sig_constraints = cs,
                         sig_stakeholders = sh, sig_success_criteria = sc\<rparr>
                 } of None \<Rightarrow> Untyped | Some g \<Rightarrow> Returns g))
      | _ \<Rightarrow> Raises TypeError)"

fun load_items ::
  "(json \<Rightarrow> 'a outcome) \<Rightarrow> (string \<times> json) list \<Rightarrow> (string \<times> 'a) list
     \<Rightarrow> (string \<times> 'a) list outcome" where
  \<comment> \<open>\<open>for pid, data in items: store[pid] = Constructor(**data)\<close>\<close>
  "load_items decode [] d = Returns d"
| "load_items decode ((pid, v) # items) d =
     (case decode v of
        Returns x \<Rightarrow> load_items decode items (dict_set d pid x)
      | Raises e \<Rightarrow> Raises e
      | Untyped \<Rightarrow> Untyped)"

definition get_items :: "(string \<times> json) list \<Rightarrow> string \<Rightarrow> (string \<times> json) list outcome" where
  \<comment> \<open>\<open>data.get(key, {}).items()\<close>\<close>
  "get_items data k =
     (case map_of data k of
        None \<Rightarrow> Returns []
      | Some (JObj members) \<Rightarrow> Returns (dict_of_pairs members)
      | Some _ \<Rightarrow> Raises AttributeError)"

definition load_json :: "PatternLibrary \<Rightarrow> json \<Rightarrow> PatternLibrary outcome" where
  \<comment> \<open>the body of the \<open>try\<close> of \<open>load_patterns\<close> after \<open>json.load\<close> has returned \<open>data\<close>\<close>
  "load_json lib data =
     (case data of
        JObj members \<Rightarrow>
          (case get_items (dict_of_pairs members) ''patterns'' of
             Returns pattern_items \<Rightarrow>
               (case load_items pattern_of_json pattern_items (patterns lib) of
                  Returns ps \<Rightarrow>
                    (case get_items (dict_of_pairs members) ''problem_signatures'' of
                       Returns sig_items \<Rightarrow>
                         (case load_items signature_of_json sig_items (problem_signatures lib) of
                            Returns gs \<Rightarrow> Returns (lib\<lparr>patterns := ps, problem_signatures := gs\<rparr>)
                          | Raises e \<Rightarrow> Raises e
                          | Untyped \<Rightarrow> Untyped)
                     | Raises e \<Rightarrow> Raises e
                     | Untyped \<Rightarrow> Untyped)
                | Raises e \<Rightarrow> Raises e
                | Untyped \<Rightarrow> Untyped)
           | Raises e \<Rightarrow> Raises e
           | Untyped \<Rightarrow> Untyped)
      | _ \<Rightarrow> Raises AttributeError)"

definition load_patterns :: "PatternLibrary \<Rightarrow> file_system \<Rightarrow> PatternLibrary outcome" where
  "load_patterns lib fs =
     (case fs (storage_path lib) of
        FileMissing \<Rightarrow> Returns lib
      | FileNotJson \<Rightarrow> Returns lib
      | FileJson data \<Rightarrow> load_json lib data
      | FileRaises e \<Rightarrow> Raises e)"

definition empty_library :: "string \<Rightarrow> PatternLibrary" where
  "empty_library path =
     \<lparr>storage_path = path, patterns = [], problem_signatures = [], connection_weights = []\<rparr>"

definition new_library :: "string \<Rightarrow> file_system \<Rightarrow> PatternLibrary outcome" where
  \<comment> \<open>\<open>PatternLibrary(storage_path)\<close>: the constructor loads the file into an empty store\<close>
  "new_library path fs = load_patterns (empty_library path) fs"

section \<open>problem_identifier.py\<close>

text \<open>
  \<open>potential_solutions\<close> and \<open>stakeholders\<close> are built with \<open>list(set(xs))\<close>, whose order
  the sources do not fix: they are sets. The built-in \<open>hash\<close> of a string differs from one
  run of the interpreter to the next; it is the parameter \<open>py_hash\<close>.
\<close>

record DetectedProblem =
  problem_id :: string
  description :: string
  domain :: string
  urgency_score :: real
  complexity_score :: real
  connection_impact :: int
  evidence :: "string list"
  potential_solutions :: "string set"
  stakeholders :: "string set"
  constraints :: "string list"

record ProblemDetector =
  pattern_library :: PatternLibrary
  detected_problems :: "(string \<times> DetectedProblem) list"

definition problem_indicators :: "(string \<times> string list) list" where
  "problem_indicators =
    [(''inefficiency'',
        [''slow'', ''bottleneck'', ''delay'', ''waste'', ''redundant'', ''manual'',
         ''repetitive'', ''time-consuming'', ''inefficient'', ''suboptimal'']),
     (''inconsistency'',
        [''inconsistent'', ''conflicting'', ''contradictory'', ''incompatible'',
         ''mismatch'', ''divergent'', ''different standards'', ''fragmented'']),
     (''complexity'',
        [''complex'', ''complicated'', ''convoluted'', ''difficult'', ''hard to understand'',
         ''unclear'', ''confusing'', ''overwhelming'', ''tangled'']),
     (''fragility'',
        [''breaks'', ''fails'', ''unstable'', ''unreliable'', ''fragile'', ''brittle'',
         ''error-prone'', ''crashes'', ''bugs'', ''vulnerable'']),
     (''isolation'',
        [''isolated'', ''disconnected'', ''siloed'', ''separated'', ''fragmented'',
         ''no communication'', ''lack of coordination'', ''not connected'']),
     (''scaling_limits'',
        [''doesn't scale'', ''limited capacity'', ''resource constraints'',
         ''performance degradation'', ''bottleneck'', ''maximum load''])]"

definition domain_classifiers :: "(string \<times> string list) list" where
  "domain_classifiers =
    [(''communication'', [''message'', ''talk'', ''communicate'', ''information'', ''data transfer'']),
     (''coordination'', [''coordinate'', ''sync'', ''align'', ''organize'', ''collaborate'']),
     (''automation'', [''manual'', ''human intervention'', ''repetitive task'', ''process'']),
     (''performance'', [''speed'', ''efficiency'', ''optimization'', ''resource usage'']),
     (''reliability'', [''failure'', ''error'', ''crash'', ''bug'', ''instability'']),
     (''scalability'', [''growth'', ''capacity'', ''load'', ''scaling'', ''expansion'']),
     (''connection'', [''relationship'', ''network'', ''link'', ''interaction'', ''bond''])]"

definition detect_indicators :: "string \<Rightarrow> (string \<times> string) list" where
  \<comment> \<open>the first loop of \<open>_extract_problems_from_sentence\<close>\<close>
  "detect_indicators sentence_lower =
     concat (map (\<lambda>(indicator_type, keywords).
                    map (\<lambda>keyword. (indicator_type, keyword))
                        (filter (\<lambda>keyword. contains sentence_lower keyword) keywords))
                 problem_indicators)"

definition classify_sentence_domain :: "string \<Rightarrow> string" where
  "classify_sentence_domain sentence =
     (case domain_scores domain_classifiers (lower sentence) of
        [] \<Rightarrow> ''general''
      | item # items \<Rightarrow> first_max item items)"

definition generate_problem_description :: "string \<Rightarrow> (string \<times> string) list \<Rightarrow> string" where
  "generate_problem_description sentence indicators =
     (let primary_indicator = (case indicators of [] \<Rightarrow> ''general'' | (t, _) # _ \<Rightarrow> t)
      in case map_of
             [(''inefficiency'', ''Process inefficiency detected: ''),
              (''inconsistency'', ''Consistency problem identified: ''),
              (''complexity'', ''Complexity barrier found: ''),
              (''fragility'', ''Reliability issue detected: ''),
              (''isolation'', ''Connection gap identified: ''),
              (''scaling_limits'', ''Scaling limitation found: '')] primary_indicator of
           Some template \<Rightarrow> template @ sentence
         | None \<Rightarrow> ''Problem detected: '' @ sentence)"

definition calculate_urgency :: "string \<Rightarrow> (string \<times> string) list \<Rightarrow> real" where
  "calculate_urgency sentence indicators =
     (let urgency_base = real (length indicators) * 0.2;
          urgency_bonus =
            sum_list (map (\<lambda>keyword. 0.3)
              (filter (contains (lower sentence))
                 [''critical'', ''urgent'', ''immediate'', ''emergency'', ''failing'', ''broken'']))
      in min 1 (urgency_base + urgency_bonus))"

definition calculate_complexity :: "string \<Rightarrow> real" where
  "calculate_complexity sentence =
     (let complexity_sum =
            sum_list (map (\<lambda>indicator. 0.2)
              (filter (contains (lower sentence))
                 [''multiple'', ''various'', ''complex'', ''many'', ''several'', ''different'']));
          length_factor = min 0.3 (real (length (split_words sentence)) / 50)
      in min 1 (complexity_sum + length_factor))"

definition int_of_digits :: "string \<Rightarrow> nat" where
  \<comment> \<open>\<open>int(num)\<close> for a string of decimal digits\<close>
  "int_of_digits num = foldl (\<lambda>a c. 10 * a + (code c - 48)) 0 num"

definition calculate_connection_impact_sentence :: "string \<Rightarrow> py_error + int" where
  \<comment> \<open>\<open>ProblemDetector._calculate_connection_impact\<close>; \<open>max\<close> of an empty sequence raises
      \<open>ValueError\<close>\<close>
  "calculate_connection_impact_sentence sentence =
     (let impact = int (length (filter (contains (lower sentence))
                     [''team'', ''people'', ''users'', ''everyone'', ''communication'',
                      ''collaboration'']));
          numbers = findall Digits sentence
      in if numbers \<noteq> []
         then (case filter (\<lambda>n. n < 1000) (map int_of_digits numbers) of
                 [] \<Rightarrow> Inl ValueError
               | n # ns \<Rightarrow> Inr (impact + int (foldl max n ns)))
         else Inr impact)"

definition extract_constraints :: "string \<Rightarrow> string list" where
  \<comment> \<open>\<open>re.findall\<close> of \<open>prefix (\w+)\<close> returns the group: the match without the prefix\<close>
  "extract_constraints sentence =
     concat (map (\<lambda>pre. map (drop (length pre)) (findall (Seq (Lit pre) Words) sentence))
               [''can't '', ''cannot '', ''unable to '', ''limited by '', ''restricted ''])"

definition extract_stakeholders :: "string \<Rightarrow> string set" where
  "extract_stakeholders sentence =
     set (filter (contains (lower sentence))
            [''team'', ''users'', ''customers'', ''developers'', ''people'', ''staff'',
             ''management''])"

definition indicator_solutions :: "(string \<times> string) list" where
  "indicator_solutions =
    [(''inefficiency'', ''Implement automation to reduce manual overhead''),
     (''inconsistency'', ''Create standardized protocols and validation''),
     (''complexity'', ''Break down into modular components''),
     (''fragility'', ''Add error handling and redundancy''),
     (''isolation'', ''Establish communication channels and integration''),
     (''scaling_limits'', ''Implement distributed architecture'')]"

definition suggest_solutions ::
  "PatternLibrary \<Rightarrow> string \<Rightarrow> (string \<times> string) list \<Rightarrow> string set" where
  "suggest_solutions lib dmn indicators =
     (let problem_sig = \<lparr>sig_domain = dmn, sig_complexity = ''medium'', sig_constraints = [],
                          sig_stakeholders = [], sig_success_criteria = []\<rparr>;
          similar_patterns = find_similar_patterns lib problem_sig (round_double (3 / 10));
          from_patterns =
            map (\<lambda>pattern. solution_approach pattern @ '': '' @
                   (case implementation_steps pattern of [] \<Rightarrow> ''Apply pattern'' | step # _ \<Rightarrow> step))
                (take 3 similar_patterns);
          from_indicators =
            concat (map (\<lambda>(indicator_type, _).
                      (case map_of indicator_solutions indicator_type of
                         Some solution \<Rightarrow> [solution] | None \<Rightarrow> []))
                    indicators)
      in set (from_patterns @ from_indicators))"

definition format_04d :: "nat \<Rightarrow> string" where
  \<comment> \<open>\<open>f"{n:04d}"\<close> for \<open>n < 10000\<close>, the only numbers it is used on\<close>
  "format_04d n =
     map (\<lambda>d. char_of (48 + d)) [n div 1000 mod 10, n div 100 mod 10, n div 10 mod 10, n mod 10]"

definition extract_problems_from_sentence ::
  "(string \<Rightarrow> int) \<Rightarrow> PatternLibrary \<Rightarrow> string \<Rightarrow> string \<Rightarrow> py_error + DetectedProblem list" where
  "extract_problems_from_sentence py_hash lib sentence src =
     (let detected_indicators = detect_indicators (lower sentence)
      in if detected_indicators = [] then Inr []
         else
           let dmn = classify_sentence_domain sentence;
               problem_desc = generate_problem_description sentence detected_indicators;
               urgency = calculate_urgency sentence detected_indicators;
               complexity = calculate_complexity sentence
           in case calculate_connection_impact_sentence sentence of
                Inl e \<Rightarrow> Inl e
              | Inr impact \<Rightarrow>
                  Inr [\<lparr>problem_id = dmn @ ''_'' @ format_04d (nat (py_hash problem_desc mod 10000)),
                        description = problem_desc,
                        domain = dmn,
                        urgency_score = urgency,
                        complexity_score = complexity,
                        connection_impact = impact,
                        evidence = [sentence],
                        potential_solutions = suggest_solutions lib dmn detected_indicators,
                        stakeholders = extract_stakeholders sentence,
                        constraints = extract_constraints sentence\<rparr>])"

fun deduplicate_from :: "string list \<Rightarrow> DetectedProblem list \<Rightarrow> DetectedProblem list" where
  \<comment> \<open>the loop of \<open>_deduplicate_problems\<close>; the first argument is \<open>seen_descriptions\<close>\<close>
  "deduplicate_from seen [] = []"
| "deduplicate_from seen (problem # problems) =
     (let key = take 50 (lower (description problem))
      in if key \<notin> set seen then problem # deduplicate_from (key # seen) problems
         else deduplicate_from seen problems)"

definition deduplicate_problems :: "DetectedProblem list \<Rightarrow> DetectedProblem list" where
  "deduplicate_problems problems = deduplicate_from [] problems"

fun extract_all ::
  "(string \<Rightarrow> int) \<Rightarrow> PatternLibrary \<Rightarrow> string list \<Rightarrow> string \<Rightarrow> py_error + DetectedProblem list" where
  \<comment> \<open>the loop of \<open>analyze_text_for_problems\<close> over the sentences\<close>
  "extract_all py_hash lib [] src = Inr []"
| "extract_all py_hash lib (sentence # sentences) src =
     (case extract_problems_from_sentence py_hash lib sentence src of
        Inl e \<Rightarrow> Inl e
      | Inr problems \<Rightarrow>
          (case extract_all py_hash lib sentences src of
             Inl e \<Rightarrow> Inl e
           | Inr detected \<Rightarrow> Inr (problems @ detected)))"

definition analyze_text_for_problems ::
  "(string \<Rightarrow> int) \<Rightarrow> ProblemDetector \<Rightarrow> string \<Rightarrow> string
     \<Rightarrow> py_error + (DetectedProblem list \<times> ProblemDetector)" where
  "analyze_text_for_problems py_hash det text src =
     (case extract_all py_hash (pattern_library det) (text_sentences text) src of
        Inl e \<Rightarrow> Inl e
      | Inr detected \<Rightarrow>
          (let unique_problems = deduplicate_problems detected
           in Inr (unique_problems,
                   det\<lparr>detected_problems :=
                         foldl (\<lambda>d problem. dict_set d (problem_id problem) problem)
                               (detected_problems det) unique_problems\<rparr>)))"

section \<open>The properties in the words of the specification\<close>

fun keyword_count :: "string \<Rightarrow> string \<Rightarrow> nat" where
  \<comment> \<open>the number of matches of a keyword in a text: its occurrences without regard to
      case, counted from the left, each one starting after the end of the one before\<close>
  "keyword_count k [] = 0"
| "keyword_count k (c # cs) =
     (if startswith (lower (c # cs)) (lower k)
      then Suc (keyword_count k (drop (length k - 1) cs))
      else keyword_count k cs)"

definition constraint_matches :: "ProblemSignature \<Rightarrow> SolutionPattern \<Rightarrow> nat" where
  \<comment> \<open>the number of constraints of the signature that occur, without regard to case, in
      an implementation step of the pattern\<close>
  "constraint_matches g p =
     length (filter (\<lambda>c. list_ex (\<lambda>step. contains (lower step) (lower c)) (implementation_steps p))
               (sig_constraints g))"

definition spec_similarity :: "ProblemSignature \<Rightarrow> SolutionPattern \<Rightarrow> real" where
  \<comment> \<open>the score as the specification words it, in exact arithmetic: 0.6 times the exact
      match of the domains plus 0.4 times the fraction of the constraints that match; the
      fraction is 0 when there is no constraint\<close>
  "spec_similarity g p =
     0.6 * (if sig_domain g = problem_domain p then 1 else 0) +
     0.4 * (if sig_constraints g = [] then 0
            else real (constraint_matches g p) / real (length (sig_constraints g)))"

definition double_similarity :: "ProblemSignature \<Rightarrow> SolutionPattern \<Rightarrow> real" where
  \<comment> \<open>the same score in double precision: the two constants, the fraction, the two
      products and the sum are each rounded to the nearest double\<close>
  "double_similarity g p =
     round_double
       (round_double ((if sig_domain g = problem_domain p then 1 else 0) * round_double (6 / 10)) +
        round_double
          ((if sig_constraints g = [] then 0
            else round_double (real (constraint_matches g p) / real (length (sig_constraints g))))
           * round_double (4 / 10)))"

definition malformed :: "pattern_file \<Rightarrow> bool" where
  \<comment> \<open>a file that is there and is no pattern file: it is no JSON text, or it cannot be
      read, or its JSON value is not even an object\<close>
  "malformed f =
     (case f of
        FileMissing \<Rightarrow> False
      | FileNotJson \<Rightarrow> True
      | FileRaises e \<Rightarrow> True
      | FileJson (JObj members) \<Rightarrow> False
      | FileJson _ \<Rightarrow> True)"

definition no_indicator_keyword :: "string \<Rightarrow> bool" where
  \<comment> \<open>no keyword of any of the six indicator categories occurs in the sentence, without
      regard to case\<close>
  "no_indicator_keyword sentence =
     list_all (\<lambda>(indicator_type, keywords).
                 list_all (\<lambda>keyword. \<not> contains (lower sentence) keyword) keywords)
              problem_indicators"

subsection \<open>Concrete inputs\<close>

definition example_pattern_a :: SolutionPattern where
  "example_pattern_a =
     \<lparr>pattern_id = ''0a1b2c3d'', problem_domain = ''automation'',
      solution_approach = ''compression'',
      implementation_steps = [''Create automated workflow'', ''Build the pipeline''],
      success_metrics = [''50%''], prerequisites = [''needs a build server''],
      connections_enhanced = 2, confidence_score = 0.4, source = ''manual''\<rparr>"

definition example_pattern_b :: SolutionPattern where
  "example_pattern_b =
     \<lparr>pattern_id = ''9f8e7d6c'', problem_domain = ''coordination'',
      solution_approach = ''custom'',
      implementation_steps = [''create automated workflow'', ''Align the teams''],
      success_metrics = [], prerequisites = [],
      connections_enhanced = 0, confidence_score = 1, source = ''ucp_core''\<rparr>"

definition example_signature :: ProblemSignature where
  "example_signature =
     \<lparr>sig_domain = ''automation'', sig_complexity = ''medium'', sig_constraints = [''deploy''],
      sig_stakeholders = [''team''], sig_success_criteria = []\<rparr>"

definition example_library :: PatternLibrary where
  "example_library =
     \<lparr>storage_path = ''patterns.json'',
      patterns = [(''0a1b2c3d'', example_pattern_a), (''9f8e7d6c'', example_pattern_b)],
      problem_signatures = [(''s1'', example_signature)],
      connection_weights = []\<rparr>"

definition example_signature_four_of_five :: ProblemSignature where
  \<comment> \<open>another domain than that of \<open>example_pattern_a\<close>; four of the five constraints
      occur in its steps\<close>
  "example_signature_four_of_five =
     \<lparr>sig_domain = ''scaling'', sig_complexity = ''medium'',
      sig_constraints = [''workflow'', ''pipeline'', ''create'', ''build'', ''deploy''],
      sig_stakeholders = [], sig_success_criteria = []\<rparr>"

definition example_signature_one_of_five :: ProblemSignature where
  \<comment> \<open>the domain of \<open>example_pattern_a\<close>; one of the five constraints occurs in its steps\<close>
  "example_signature_one_of_five =
     \<lparr>sig_domain = ''automation'', sig_complexity = ''medium'',
      sig_constraints = [''workflow'', ''deploy'', ''test'', ''review'', ''train''],
      sig_stakeholders = [], sig_success_criteria = []\<rparr>"

definition example_library_one :: PatternLibrary where
  "example_library_one =
     \<lparr>storage_path = ''patterns.json'', patterns = [(''0a1b2c3d'', example_pattern_a)],
      problem_signatures = [], connection_weights = []\<rparr>"

definition file_system_with :: "pattern_file \<Rightarrow> file_system" where
  \<comment> \<open>the file system that has the given file at every path\<close>
  "file_system_with f = (\<lambda>path. f)"

definition example_detector :: ProblemDetector where
  "example_detector =
     \<lparr>pattern_library = empty_library ''patterns.json'', detected_problems = []\<rparr>"

section \<open>Theorems about ucp_core.py\<close>

lemma compress_empty: "compression_ratio (compress []) = 0"
  by (simp add: compress_def Let_def split: prod.splits)

lemma compression_ratio_nonneg: "0 \<le> compression_ratio (compress text)"
  by (simp add: compress_def Let_def split: prod.splits)

text \<open>
  C1. The compression ratio is said to lie in \<open>[0, 1]\<close> for every text that is not empty.
  It does not: \<open>compress\<close> puts the first sentence in front of the reasoning and the last
  sentence behind it, so a text of one sentence is written twice. The text \<open>ok\<close>, of
  length 2, is compressed to \<open>ok. ok\<close>, of length 6: the ratio is 3.
\<close>

theorem compress_single_sentence_ratio: "compression_ratio (compress ''ok'') = 3"
  by code_simp

lemma startswith_take: "startswith s p \<longleftrightarrow> length p \<le> length s \<and> take (length p) s = p"
  by (induction s p rule: startswith.induct) auto

lemma rx_ends_Lit:
  "rx_ends (Lit p) prev s = (if startswith (lower s) (lower p) then [length p] else [])"
  by (simp add: startswith_take lower_def take_map)

lemma length_findall_Lit: "length (findall_from (Lit p) prev s) = keyword_count p s"
proof (induction s arbitrary: prev rule: length_induct)
  case (1 s)
  show ?case
  proof (cases s)
    case Nil
    then show ?thesis by simp
  next
    case (Cons c cs)
    have a: "length (findall_from (Lit p) q cs) = keyword_count p cs" for q
      using 1 Cons by simp
    have b: "length (findall_from (Lit p) q (drop (length p - Suc 0) cs)) =
             keyword_count p (drop (length p - Suc 0) cs)" for q
      using 1 Cons by simp
    show ?thesis
      unfolding Cons findall_from.simps rx_ends_Lit keyword_count.simps
      by (simp add: a b)
  qed
qed

lemma count_matches_keyword_count: "count_matches p text = keyword_count p text"
  by (simp add: count_matches_def findall_def length_findall_Lit)

text \<open>
  C3. \<open>validate_connection_axiom\<close> is true exactly when the matches of the collaborative
  keywords in the text, counted together, are strictly more than the matches of the
  harmful keywords.
\<close>

theorem validate_connection_axiom_iff:
  "validate_connection_axiom text \<longleftrightarrow>
     sum_list (map (\<lambda>k. keyword_count k text) harmful_patterns)
       < sum_list (map (\<lambda>k. keyword_count k text) connection_patterns)"
  by (simp add: validate_connection_axiom_def connection_score_def harmful_score_def
        count_matches_keyword_count)


section \<open>Theorems about pattern_library.py\<close>

text \<open>
  C5. Recombining an empty list of patterns returns the dictionary with the entry
  \<open>error\<close>, whatever the problem context is. \<open>recombine_patterns\<close> has no statement that
  raises (the division by the number of patterns comes after the test for the empty
  list), so the model is a total function.
\<close>

theorem recombine_patterns_empty:
  "recombine_patterns [] problem_context = Error_dict ''No patterns provided for recombination''"
  by (simp add: recombine_patterns_def)

lemma sum_list_unit_bounds:
  "list_all (\<lambda>x. 0 \<le> f x \<and> f x \<le> (1::real)) xs \<Longrightarrow>
     0 \<le> sum_list (map f xs) \<and> sum_list (map f xs) \<le> real (length xs)"
  by (induction xs) auto

lemma sum_list_nonneg_int:
  "list_all (\<lambda>x. (0::int) \<le> f x) xs \<Longrightarrow> 0 \<le> sum_list (map f xs)"
  by (induction xs) auto

lemma calculate_pattern_confidence_bounds:
  "0 \<le> calculate_pattern_confidence problem solution \<and>
   calculate_pattern_confidence problem solution \<le> 1"
  by (simp add: calculate_pattern_confidence_def Let_def)

text \<open>
  C8. The pattern that \<open>extract_pattern\<close> creates has a confidence score in \<open>[0, 1]\<close>.
  For a list of patterns that is not empty and whose confidence scores are all in
  \<open>[0, 1]\<close>, \<open>recombine_patterns\<close> returns a recombined solution whose confidence score is
  in \<open>[0, 1]\<close>, and whose \<open>connections_enhanced\<close> is at least 0 when the counter of every
  pattern is at least 0.
\<close>

theorem confidence_score_bounds:
  "0 \<le> confidence_score (fst (extract_pattern md5 lib pd sd impl src)) \<and>
   confidence_score (fst (extract_pattern md5 lib pd sd impl src)) \<le> 1 \<and>
   (ps \<noteq> [] \<and> list_all (\<lambda>p. 0 \<le> confidence_score p \<and> confidence_score p \<le> 1) ps \<longrightarrow>
      (\<exists>r. recombine_patterns ps problem_context = Recombined_solution_dict r \<and>
           0 \<le> rs_confidence_score r \<and> rs_confidence_score r \<le> 1 \<and>
           (list_all (\<lambda>p. 0 \<le> connections_enhanced p) ps \<longrightarrow> 0 \<le> rs_connections_enhanced r)))"
proof -
  have a: "0 \<le> confidence_score (fst (extract_pattern md5 lib pd sd impl src)) \<and>
           confidence_score (fst (extract_pattern md5 lib pd sd impl src)) \<le> 1"
    using calculate_pattern_confidence_bounds [of pd sd]
    by (simp add: extract_pattern_def Let_def)
  have b: "\<exists>r. recombine_patterns ps problem_context = Recombined_solution_dict r \<and>
           0 \<le> rs_confidence_score r \<and> rs_confidence_score r \<le> 1 \<and>
           (list_all (\<lambda>p. 0 \<le> connections_enhanced p) ps \<longrightarrow> 0 \<le> rs_connections_enhanced r)"
    if ne: "ps \<noteq> []" and cs: "list_all (\<lambda>p. 0 \<le> confidence_score p \<and> confidence_score p \<le> 1) ps"
  proof -
    have len: "0 < real (length ps)" using ne by simp
    have s: "0 \<le> sum_list (map confidence_score ps)"
            "sum_list (map confidence_score ps) \<le> real (length ps)"
      using sum_list_unit_bounds [OF cs] by simp_all
    have lo: "0 \<le> sum_list (map confidence_score ps) / real (length ps)"
      using s(1) len by simp
    have hi: "sum_list (map confidence_score ps) / real (length ps) \<le> 1"
      using s(2) len by (simp add: divide_le_eq)
    show ?thesis
      using ne lo hi sum_list_nonneg_int [of connections_enhanced ps]
      by (simp add: recombine_patterns_def Let_def)
  qed
  show ?thesis using a b by blast
qed

text \<open>
  The theorem at two patterns with the confidence scores 0.4 and 1 and the counters 2
  and 0: the recombined confidence is 0.7 and the recombined counter is 2.
\<close>

theorem confidence_score_bounds_witness:
  "[example_pattern_a, example_pattern_b] \<noteq> [] \<and>
   list_all (\<lambda>p. 0 \<le> confidence_score p \<and> confidence_score p \<le> 1)
     [example_pattern_a, example_pattern_b] \<and>
   list_all (\<lambda>p. 0 \<le> connections_enhanced p) [example_pattern_a, example_pattern_b] \<and>
   (\<exists>r. recombine_patterns [example_pattern_a, example_pattern_b] ''slow builds'' =
          Recombined_solution_dict r \<and>
        0 \<le> rs_confidence_score r \<and> rs_confidence_score r \<le> 1 \<and> 0 \<le> rs_connections_enhanced r)"
proof -
  have h: "list_all (\<lambda>p. 0 \<le> confidence_score p \<and> confidence_score p \<le> 1)
             [example_pattern_a, example_pattern_b]"
    by (simp add: example_pattern_a_def example_pattern_b_def)
  have c: "list_all (\<lambda>p. 0 \<le> connections_enhanced p) [example_pattern_a, example_pattern_b]"
    by (simp add: example_pattern_a_def example_pattern_b_def)
  show ?thesis
    using h c
      confidence_score_bounds [where ps = "[example_pattern_a, example_pattern_b]"
        and problem_context = "''slow builds''"]
    by blast
qed

lemma calculate_similarity_double: "calculate_similarity g p = double_similarity g p"
  by (simp add: calculate_similarity_def double_similarity_def constraint_matches_def
        float_add_def float_mul_def int_truediv_def Let_def)

lemma scored_filter:
  "map fst (filter (\<lambda>(p, s). t \<le> s) (map (\<lambda>p. (p, f p)) ps)) = filter (\<lambda>p. t \<le> f p) ps"
  by (induction ps) auto

lemma double_similarity_four_of_five:
  "double_similarity example_signature_four_of_five example_pattern_a =
     1441151880758559 / 4503599627370496"
  by code_simp

lemma double_similarity_one_of_five:
  "double_similarity example_signature_one_of_five example_pattern_a =
     3062447746611937 / 4503599627370496"
  by code_simp

lemma spec_similarity_four_of_five:
  "spec_similarity example_signature_four_of_five example_pattern_a = 8 / 25"
  by code_simp

text \<open>
  With the score in exact arithmetic the claim C6 fails. The pattern is of another domain
  and four of five constraints match: the exact score is 8/25. In double precision
  \<open>0.8 * 0.4\<close> is 0.32000000000000006, which is more than 8/25. With this double as the
  threshold the pattern is returned, although its exact score is below the threshold.
\<close>

theorem find_similar_patterns_exact_counterexample:
  "find_similar_patterns example_library_one example_signature_four_of_five
     (1441151880758559 / 4503599627370496) = [example_pattern_a] \<and>
   spec_similarity example_signature_four_of_five example_pattern_a
     < 1441151880758559 / 4503599627370496"
proof -
  have "find_similar_patterns example_library_one example_signature_four_of_five
          (1441151880758559 / 4503599627370496) = [example_pattern_a]"
    by (simp add: find_similar_patterns_def example_library_one_def
          calculate_similarity_double double_similarity_four_of_five)
  then show ?thesis by (simp add: spec_similarity_four_of_five)
qed

text \<open>
  C6, amended. \<open>find_similar_patterns\<close> returns exactly the stored patterns whose
  similarity score is at least the threshold (each as often as it is stored), in the
  order of descending score, where the score is 0.6 times the exact match of the domains
  plus 0.4 times the fraction of the constraints that match, computed in double
  precision: the constants and the result of every operation are rounded to the nearest
  double.
\<close>

theorem find_similar_patterns_spec:
  "mset (find_similar_patterns lib g threshold) =
     mset (filter (\<lambda>p. threshold \<le> double_similarity g p) (map snd (patterns lib))) \<and>
   sorted_wrt (\<lambda>p q. double_similarity g q \<le> double_similarity g p)
     (find_similar_patterns lib g threshold)"
proof -
  let ?f = "calculate_similarity g"
  let ?xs = "filter (\<lambda>(p, s). threshold \<le> s) (map (\<lambda>p. (p, ?f p)) (map snd (patterns lib)))"
  let ?ys = "sort_key (\<lambda>x. - snd x) ?xs"
  have res: "find_similar_patterns lib g threshold = map fst ?ys"
    by (simp add: find_similar_patterns_def Let_def)
  have "mset (map fst ?ys) = mset (map fst ?xs)"
    by simp
  then have m: "mset (map fst ?ys) =
      mset (filter (\<lambda>p. threshold \<le> ?f p) (map snd (patterns lib)))"
    by (simp only: scored_filter)
  have "sorted (map (\<lambda>x. - snd x) ?ys)"
    by (rule sorted_sort_key)
  then have "sorted_wrt (\<lambda>x y. - snd x \<le> - snd y) ?ys"
    by (simp only: sorted_map)
  then have "sorted_wrt (\<lambda>x y. ?f (fst y) \<le> ?f (fst x)) ?ys"
  proof (rule sorted_wrt_mono_rel [rotated])
    fix x y assume xy: "x \<in> set ?ys" "y \<in> set ?ys" and le: "- snd x \<le> - snd y"
    have "x \<in> set ?xs" "y \<in> set ?xs" using xy by simp_all
    then have "snd x = ?f (fst x)" "snd y = ?f (fst y)" by auto
    then show "?f (fst y) \<le> ?f (fst x)" using le by simp
  qed
  then have s: "sorted_wrt (\<lambda>p q. ?f q \<le> ?f p) (map fst ?ys)"
    by (simp add: sorted_wrt_map)
  show ?thesis
    using m s by (simp add: res calculate_similarity_double [abs_def])
qed

text \<open>
  The rounding decides at a threshold of 0.68, the double nearest to 17/25: with the
  domain matched and one of five constraints, \<open>1.0 * 0.6 + 0.2 * 0.4\<close> is
  0.6799999999999999 in double precision, and the pattern is not returned.
\<close>

lemma round_double_17_25: "round_double (17 / 25) = 6124895493223875 / 9007199254740992"
  by code_simp

lemma find_similar_patterns_rounds:
  "find_similar_patterns example_library_one example_signature_one_of_five
     (round_double (17 / 25)) = []"
  by (simp add: round_double_17_25 find_similar_patterns_def example_library_one_def
        calculate_similarity_double double_similarity_one_of_five)

lemma dict_set_fresh: "k \<notin> set (map fst d) \<Longrightarrow> dict_set d k v = d @ [(k, v)]"
  by (induction d) auto

lemma foldl_dict_set_distinct:
  "distinct (map fst (d @ xs)) \<Longrightarrow> foldl (\<lambda>d (k, v). dict_set d k v) d xs = d @ xs"
proof (induction xs arbitrary: d)
  case Nil
  then show ?case by simp
next
  case (Cons x xs)
  obtain k v where x: "x = (k, v)" by (cases x)
  have fresh: "k \<notin> set (map fst d)" using Cons.prems x by auto
  have "distinct (map fst ((d @ [(k, v)]) @ xs))" using Cons.prems x by simp
  then have "foldl (\<lambda>d (k, v). dict_set d k v) (d @ [(k, v)]) xs = (d @ [(k, v)]) @ xs"
    by (rule Cons.IH)
  then show ?case using fresh x by (simp add: dict_set_fresh)
qed

lemma dict_of_pairs_distinct: "distinct (map fst xs) \<Longrightarrow> dict_of_pairs xs = xs"
  using foldl_dict_set_distinct [of "[]" xs] by (simp add: dict_of_pairs_def)

lemma json_strs_JStr: "json_strs (map JStr xs) = Some xs"
  by (induction xs) auto

lemma pattern_of_json_asdict: "pattern_of_json (asdict_pattern p) = Returns p"
proof -
  have d: "dict_of_pairs
      [(''id'', JStr (pattern_id p)),
       (''problem_domain'', JStr (problem_domain p)),
       (''solution_approach'', JStr (solution_approach p)),
       (''implementation_steps'', JList (map JStr (implementation_steps p))),
       (''success_metrics'', JList (map JStr (success_metrics p))),
       (''prerequisites'', JList (map JStr (prerequisites p))),
       (''connections_enhanced'', JInt (connections_enhanced p)),
       (''confidence_score'', JFloat (confidence_score p)),
       (''source'', JStr (source p))] =
      [(''id'', JStr (pattern_id p)),
       (''problem_domain'', JStr (problem_domain p)),
       (''solution_approach'', JStr (solution_approach p)),
       (''implementation_steps'', JList (map JStr (implementation_steps p))),
       (''success_metrics'', JList (map JStr (success_metrics p))),
       (''prerequisites'', JList (map JStr (prerequisites p))),
       (''connections_enhanced'', JInt (connections_enhanced p)),
       (''confidence_score'', JFloat (confidence_score p)),
       (''source'', JStr (source p))]"
    by (rule dict_of_pairs_distinct) simp
  show ?thesis
    unfolding pattern_of_json_def asdict_pattern_def json.case d Let_def
    by (simp add: same_keys_def str_field_def strs_field_def int_field_def float_field_def
          json_strs_JStr)
qed

lemma signature_of_json_asdict: "signature_of_json (asdict_signature g) = Returns g"
proof -
  have d: "dict_of_pairs
      [(''domain'', JStr (sig_domain g)),
       (''complexity'', JStr (sig_complexity g)),
       (''constraints'', JList (map JStr (sig_constraints g))),
       (''stakeholders'', JList (map JStr (sig_stakeholders g))),
       (''success_criteria'', JList (map JStr (sig_success_criteria g)))] =
      [(''domain'', JStr (sig_domain g)),
       (''complexity'', JStr (sig_complexity g)),
       (''constraints'', JList (map JStr (sig_constraints g))),
       (''stakeholders'', JList (map JStr (sig_stakeholders g))),
       (''success_criteria'', JList (map JStr (sig_success_criteria g)))]"
    by (rule dict_of_pairs_distinct) simp
  show ?thesis
    unfolding signature_of_json_def asdict_signature_def json.case d Let_def
    by (simp add: same_keys_def str_field_def strs_field_def json_strs_JStr)
qed

lemma load_items_roundtrip:
  assumes dec: "\<And>x. decode (enc x) = Returns x"
  shows "load_items decode (map (\<lambda>(k, x). (k, enc x)) xs) d =
         Returns (foldl (\<lambda>d (k, v). dict_set d k v) d xs)"
  by (induction xs arbitrary: d) (auto simp: dec)

lemma map_fst_enc: "map fst (map (\<lambda>(k, x). (k, enc x)) xs) = map fst xs"
  by (induction xs) auto

lemma load_items_saved:
  assumes dec: "\<And>x. decode (enc x) = Returns x" and dist: "distinct (map fst xs)"
  shows "load_items decode (dict_of_pairs (map (\<lambda>(k, x). (k, enc x)) xs)) [] = Returns xs"
proof -
  have "dict_of_pairs (map (\<lambda>(k, x). (k, enc x)) xs) = map (\<lambda>(k, x). (k, enc x)) xs"
    by (rule dict_of_pairs_distinct) (simp only: map_fst_enc dist)
  then show ?thesis
    using foldl_dict_set_distinct [of "[]" xs] dist
    by (simp add: load_items_roundtrip [of decode enc, OF dec])
qed

text \<open>
  C2. A store is saved and a new store is made on the same path: the new store has the
  patterns of the saved one, with the same ids, in the same order, and every field of
  every pattern as it was; so for the problem signatures. The keys of a dictionary are
  distinct.
\<close>

theorem save_load_roundtrip:
  assumes "distinct (map fst (patterns lib))"
    and "distinct (map fst (problem_signatures lib))"
  shows "new_library (storage_path lib) (save_patterns lib fs) =
           Returns \<lparr>storage_path = storage_path lib, patterns = patterns lib,
                    problem_signatures = problem_signatures lib, connection_weights = []\<rparr>"
proof -
  let ?members =
    "[(''patterns'', JObj (map (\<lambda>(pid, pattern). (pid, asdict_pattern pattern)) (patterns lib))),
      (''problem_signatures'',
         JObj (map (\<lambda>(pid, g). (pid, asdict_signature g)) (problem_signatures lib)))]"
  have top: "dict_of_pairs ?members = ?members"
    by (rule dict_of_pairs_distinct) simp
  have p: "load_items pattern_of_json
             (dict_of_pairs (map (\<lambda>(pid, pattern). (pid, asdict_pattern pattern)) (patterns lib))) []
           = Returns (patterns lib)"
    by (rule load_items_saved [OF pattern_of_json_asdict assms(1)])
  have g: "load_items signature_of_json
             (dict_of_pairs (map (\<lambda>(pid, g). (pid, asdict_signature g)) (problem_signatures lib))) []
           = Returns (problem_signatures lib)"
    by (rule load_items_saved [OF signature_of_json_asdict assms(2)])
  show ?thesis
    unfolding new_library_def load_patterns_def save_patterns_def load_json_def
    by (simp add: top get_items_def empty_library_def p g)
qed

text \<open>The theorem at a store of two patterns and one signature, saved where no file was.\<close>

theorem save_load_roundtrip_witness:
  "distinct (map fst (patterns example_library)) \<and>
   distinct (map fst (problem_signatures example_library)) \<and>
   new_library ''patterns.json'' (save_patterns example_library (\<lambda>path. FileMissing)) =
     Returns example_library"
proof -
  have a: "distinct (map fst (patterns example_library))"
    by (simp add: example_library_def)
  have b: "distinct (map fst (problem_signatures example_library))"
    by (simp add: example_library_def)
  show ?thesis
    using a b save_load_roundtrip [OF a b, of "\<lambda>path. FileMissing"]
    by (simp add: example_library_def)
qed

text \<open>
  The claim C7 as it is worded fails: a file that holds the JSON text \<open>[]\<close> is a
  malformed pattern file, and the constructor of the store raises \<open>AttributeError\<close> on it.
\<close>

theorem load_patterns_malformed_counterexample:
  "malformed (FileJson (JList [])) \<and>
   new_library ''patterns.json'' (file_system_with (FileJson (JList []))) = Raises AttributeError"
  by (simp add: malformed_def new_library_def load_patterns_def load_json_def empty_library_def
        file_system_with_def)

text \<open>
  C7, amended. Where the pattern file is missing or is no JSON text (\<open>json.load\<close> raises
  \<open>JSONDecodeError\<close>), \<open>load_patterns\<close> returns without an exception and leaves the store
  as it was: the store that the constructor makes stays empty.
\<close>

theorem load_patterns_missing_or_not_json:
  assumes "fs (storage_path lib) = FileMissing \<or> fs (storage_path lib) = FileNotJson"
  shows "load_patterns lib fs = Returns lib \<and>
         new_library (storage_path lib) fs = Returns (empty_library (storage_path lib)) \<and>
         patterns (empty_library (storage_path lib)) = []"
  using assms by (auto simp: new_library_def load_patterns_def empty_library_def)

theorem load_patterns_missing_or_not_json_witness:
  "((\<lambda>path. FileNotJson) (storage_path example_library) = FileMissing \<or>
    (\<lambda>path. FileNotJson) (storage_path example_library) = FileNotJson) \<and>
   load_patterns example_library (\<lambda>path. FileNotJson) = Returns example_library \<and>
   new_library ''patterns.json'' (\<lambda>path. FileNotJson) = Returns (empty_library ''patterns.json'')"
  using load_patterns_missing_or_not_json
          [where fs = "\<lambda>path. FileNotJson" and lib = example_library]
  by (simp add: example_library_def)

text \<open>
  Malformed files of other kinds reach the caller as exceptions: a file whose reading
  raises, a JSON value that is no object, an entry \<open>patterns\<close> that is no object, a
  pattern that has not exactly the fields of a pattern.
\<close>

lemma load_patterns_raises:
  "fs (storage_path lib) = FileRaises e \<Longrightarrow> load_patterns lib fs = Raises e"
  by (simp add: load_patterns_def)

lemma load_patterns_not_object:
  "malformed (FileJson v) \<Longrightarrow> fs (storage_path lib) = FileJson v \<Longrightarrow>
     load_patterns lib fs = Raises AttributeError"
  by (cases v) (simp_all add: malformed_def load_patterns_def load_json_def)

lemma load_patterns_wrong_shape:
  "new_library ''patterns.json'' (\<lambda>path. FileJson (JObj [(''patterns'', JNull)])) =
     Raises AttributeError \<and>
   new_library ''patterns.json''
     (\<lambda>path. FileJson (JObj [(''patterns'', JObj [(''0a1b2c3d'', JObj [])])])) = Raises TypeError \<and>
   new_library ''patterns.json'' (\<lambda>path. FileRaises UnicodeDecodeError) = Raises UnicodeDecodeError"
  by (simp add: new_library_def load_patterns_def load_json_def get_items_def dict_of_pairs_def
        pattern_of_json_def same_keys_def empty_library_def)

section \<open>Theorems about problem_identifier.py\<close>

lemma concat_map_Nil: "list_all (\<lambda>x. f x = []) xs \<Longrightarrow> concat (map f xs) = []"
  by (induction xs) auto

lemma filter_none: "list_all (\<lambda>x. \<not> P x) xs \<Longrightarrow> filter P xs = []"
  by (induction xs) auto

lemma detect_indicators_none:
  assumes "no_indicator_keyword sentence"
  shows "detect_indicators (lower sentence) = []"
proof -
  have "list_all (\<lambda>x. (case x of (indicator_type, keywords) \<Rightarrow>
            map (\<lambda>keyword. (indicator_type, keyword))
                (filter (\<lambda>keyword. contains (lower sentence) keyword) keywords)) = [])
          problem_indicators"
    using assms unfolding no_indicator_keyword_def
    by (rule list.pred_mono_strong) (auto simp: filter_none)
  then show ?thesis
    unfolding detect_indicators_def by (rule concat_map_Nil)
qed

lemma extract_all_none:
  "list_all no_indicator_keyword sentences \<Longrightarrow> extract_all py_hash lib sentences src = Inr []"
  by (induction sentences)
     (auto simp: extract_problems_from_sentence_def detect_indicators_none)

text \<open>
  C4. For a text in none of whose sentences a keyword of the six indicator categories
  occurs, \<open>analyze_text_for_problems\<close> returns the empty list (and leaves the detector as
  it was).
\<close>

theorem no_indicator_no_problem:
  assumes "list_all no_indicator_keyword (text_sentences text)"
  shows "analyze_text_for_problems py_hash det text src = Inr ([], det)"
  using extract_all_none [OF assms]
  by (simp add: analyze_text_for_problems_def deduplicate_problems_def)

theorem no_indicator_no_problem_witness:
  "list_all no_indicator_keyword (text_sentences ''All is well. Nothing to report!'') \<and>
   analyze_text_for_problems (\<lambda>s. int (length s)) example_detector
     ''All is well. Nothing to report!'' ''input'' = Inr ([], example_detector)"
proof -
  have h: "list_all no_indicator_keyword (text_sentences ''All is well. Nothing to report!'')"
    by code_simp
  show ?thesis using h no_indicator_no_problem [OF h] by simp
qed

lemma length_extract_problems_from_sentence:
  "extract_problems_from_sentence py_hash lib sentence src = Inr problems \<Longrightarrow> length problems \<le> 1"
  by (auto simp: extract_problems_from_sentence_def Let_def split: if_splits sum.splits)

lemma length_extract_all:
  "extract_all py_hash lib sentences src = Inr detected \<Longrightarrow> length detected \<le> length sentences"
proof (induction sentences arbitrary: detected)
  case Nil
  then show ?case by simp
next
  case (Cons s ss)
  from Cons.prems obtain ps qs where
    ps: "extract_problems_from_sentence py_hash lib s src = Inr ps" and
    qs: "extract_all py_hash lib ss src = Inr qs" and
    d: "detected = ps @ qs"
    by (auto split: sum.splits)
  have "length ps \<le> 1" using ps by (rule length_extract_problems_from_sentence)
  moreover have "length qs \<le> length ss" using qs by (rule Cons.IH)
  ultimately show ?case using d by simp
qed

lemma length_deduplicate_from: "length (deduplicate_from seen problems) \<le> length problems"
  by (induction problems arbitrary: seen) (auto simp: Let_def le_SucI)

text \<open>
  C10. A sentence yields at most one problem, however many indicator categories match it,
  and the list that \<open>analyze_text_for_problems\<close> returns is at most as long as the list of
  the sentences of the text: the pieces between \<open>.\<close>, \<open>!\<close> and \<open>?\<close> that are not empty
  once stripped.
\<close>

theorem at_most_one_problem_per_sentence:
  "(extract_problems_from_sentence py_hash lib sentence src = Inr found \<longrightarrow> length found \<le> 1) \<and>
   (analyze_text_for_problems py_hash det text src = Inr (problems, det') \<longrightarrow>
      length problems \<le> length (text_sentences text))"
proof -
  have "length problems \<le> length (text_sentences text)"
    if "analyze_text_for_problems py_hash det text src = Inr (problems, det')"
  proof -
    from that obtain detected where
      e: "extract_all py_hash (pattern_library det) (text_sentences text) src = Inr detected" and
      p: "problems = deduplicate_problems detected"
      by (auto simp: analyze_text_for_problems_def Let_def split: sum.splits)
    have "length problems \<le> length detected"
      using p length_deduplicate_from [of "[]" detected] by (simp add: deduplicate_problems_def)
    then show ?thesis using length_extract_all [OF e] by simp
  qed
  then show ?thesis using length_extract_problems_from_sentence by blast
qed

text \<open>
  The theorem at a sentence that two categories match, and at a text of three sentences
  of which two have indicator keywords.
\<close>

theorem at_most_one_problem_per_sentence_witness:
  "(\<exists>found. extract_problems_from_sentence (\<lambda>s. int (length s)) (empty_library ''patterns.json'')
              ''The build is slow and complex'' ''input'' = Inr found \<and> length found \<le> 1) \<and>
   (\<exists>problems det'. analyze_text_for_problems (\<lambda>s. int (length s)) example_detector
              ''The build is slow and complex. It fails. Fine'' ''input'' = Inr (problems, det') \<and>
            length problems \<le> length (text_sentences ''The build is slow and complex. It fails. Fine''))"
proof -
  let ?e = "extract_problems_from_sentence (\<lambda>s. int (length s)) (empty_library ''patterns.json'')
              ''The build is slow and complex'' ''input''"
  let ?a = "analyze_text_for_problems (\<lambda>s. int (length s)) example_detector
              ''The build is slow and complex. It fails. Fine'' ''input''"
  have "\<not> isl ?e" by code_simp
  then obtain found where e: "?e = Inr found" by (cases ?e) auto
  have "\<not> isl ?a" by code_simp
  then obtain problems det' where a: "?a = Inr (problems, det')" by (cases ?a) auto
  show ?thesis
    using e a
      at_most_one_problem_per_sentence
        [of "\<lambda>s. int (length s)" "empty_library ''patterns.json''"
           "''The build is slow and complex''" "''input''" found example_detector
           "''The build is slow and complex. It fails. Fine''" problems det']
    by blast
qed

text \<open>
  \<open>analyze_text_for_problems\<close> returns a list for every text without a decimal digit.
\<close>

lemma findall_Digits_none:
  "list_all (\<lambda>c. \<not> is_digit c) s \<Longrightarrow> findall_from Digits prev s = []"
  by (induction s arbitrary: prev) auto

lemma set_strip: "set (strip s) \<subseteq> set s"
proof -
  have "set (strip s) = set (dropWhile is_space (rev (dropWhile is_space s)))"
    by (simp add: strip_def)
  also have "\<dots> \<subseteq> set (rev (dropWhile is_space s))"
    by (auto dest: set_dropWhileD)
  also have "\<dots> \<subseteq> set s"
    by (auto dest: set_dropWhileD)
  finally show ?thesis .
qed

lemma set_split_on: "w \<in> set (split_on P s) \<Longrightarrow> x \<in> set w \<Longrightarrow> x \<in> set s"
proof (induction s arbitrary: w)
  case Nil
  then show ?case by simp
next
  case (Cons c cs)
  show ?case
  proof (cases "P c")
    case True
    then have "w = [] \<or> w \<in> set (split_on P cs)" using Cons.prems(1) by simp
    then show ?thesis using Cons.IH Cons.prems(2) by auto
  next
    case False
    show ?thesis
    proof (cases "split_on P cs")
      case Nil
      then show ?thesis using False Cons.prems by simp
    next
      case sp: (Cons v vs)
      then have "w = c # v \<or> w \<in> set vs" using False Cons.prems(1) by simp
      moreover have "v \<in> set (split_on P cs)" "set vs \<subseteq> set (split_on P cs)"
        using sp by auto
      ultimately show ?thesis using Cons.IH [of v] Cons.IH [of w] Cons.prems(2) by auto
    qed
  qed
qed

lemma set_text_sentences: "s \<in> set (text_sentences text) \<Longrightarrow> set s \<subseteq> set text"
  using set_strip set_split_on by (fastforce simp: text_sentences_def)

lemma connection_impact_without_digits:
  "list_all (\<lambda>c. \<not> is_digit c) s \<Longrightarrow> \<exists>n. calculate_connection_impact_sentence s = Inr n"
  by (simp add: calculate_connection_impact_sentence_def findall_def findall_Digits_none)

lemma extract_without_digits:
  assumes "list_all (\<lambda>c. \<not> is_digit c) s"
  shows "\<exists>ps. extract_problems_from_sentence py_hash lib s src = Inr ps"
  using connection_impact_without_digits [OF assms]
  by (auto simp: extract_problems_from_sentence_def Let_def)

lemma extract_all_without_digits:
  "list_all (list_all (\<lambda>c. \<not> is_digit c)) ss \<Longrightarrow> \<exists>ps. extract_all py_hash lib ss src = Inr ps"
proof (induction ss)
  case Nil
  then show ?case by simp
next
  case (Cons s ss)
  then obtain ps qs where
    "extract_problems_from_sentence py_hash lib s src = Inr ps"
    "extract_all py_hash lib ss src = Inr qs"
    using extract_without_digits [of s py_hash lib src] by auto
  then show ?case by simp
qed

lemma analyze_text_for_problems_returns:
  assumes "list_all (\<lambda>c. \<not> is_digit c) text"
  shows "\<exists>problems det'. analyze_text_for_problems py_hash det text src = Inr (problems, det')"
proof -
  have "list_all (list_all (\<lambda>c. \<not> is_digit c)) (text_sentences text)"
    using assms set_text_sentences by (fastforce simp: list_all_iff)
  from extract_all_without_digits [OF this, of py_hash "pattern_library det" src]
  show ?thesis
    by (auto simp: analyze_text_for_problems_def Let_def)
qed

text \<open>
  \<open>analyze_text_for_problems\<close> does not return for every text: where a sentence with an
  indicator keyword has numbers and none of them is below 1000, the \<open>max\<close> of
  \<open>_calculate_connection_impact\<close> is taken of an empty sequence.
\<close>

lemma analyze_text_for_problems_raises:
  "analyze_text_for_problems (\<lambda>s. int (length s)) example_detector
     ''It is slow for 5000 users'' ''input'' = Inl ValueError"
  by code_simp

end
